theory Spec2Isabelle
  imports Complex_Main "HOL-Library.Sublist"
begin

section \<open>Numbers and errors\<close>

text \<open>
  The program is the script \<^verbatim>\<open>normalising.py\<close>. Its numbers are Python floats; they are
  embedded as \<^typ>\<open>real\<close>, so every value is finite and every operation is exact.
  Rounding is outside this model: where a result of the script depends on it (the value
  \<open>a\<close> of the distance formula can round to just below 0 when a latitude is outside
  \<open>[-90,90]\<close>, and to just above 1 at antipodes), nothing is proved here. NaN and the
  infinities are added to the reals for the distance function alone, further down.
  An exception is a value of \<^typ>\<open>'e + 'a\<close> with \<open>Inl\<close> for the exception raised.
\<close>

datatype error =
    ValueError      \<comment> \<open>\<^verbatim>\<open>math domain error\<close>, a length mismatch, an empty batch\<close>
  | KeyError string \<comment> \<open>a column that the table does not have\<close>

text \<open>One step after another, stopping at the first exception.\<close>

definition bind_err :: "error + 'a \<Rightarrow> ('a \<Rightarrow> error + 'b) \<Rightarrow> error + 'b" where
  "bind_err r f = (case r of Inl e \<Rightarrow> Inl e | Inr x \<Rightarrow> f x)"

subsection \<open>The functions taken from \<^verbatim>\<open>math\<close>\<close>

definition radians :: "real \<Rightarrow> real" where
  "radians x = x * (pi / 180)"

definition py_sqrt :: "real \<Rightarrow> error + real" where
  "py_sqrt x = (if x < 0 then Inl ValueError else Inr (sqrt x))"

definition py_asin :: "real \<Rightarrow> error + real" where
  "py_asin x = (if x < - 1 \<or> 1 < x then Inl ValueError else Inr (arcsin x))"

section \<open>Method 1: the haversine distance\<close>

definition Earth_Radius_km :: real where
  "Earth_Radius_km = 6371"

text \<open>Lines 54 to 61 of the script: the value \<open>a\<close> of the four coordinates.\<close>

definition haversine_a :: "real \<Rightarrow> real \<Rightarrow> real \<Rightarrow> real \<Rightarrow> real" where
  "haversine_a lat1 lon1 lat2 lon2 =
     (let lat1_rad = radians lat1; lon1_rad = radians lon1;
          lat2_rad = radians lat2; lon2_rad = radians lon2;
          dlon = lon2_rad - lon1_rad;
          dlat = lat2_rad - lat1_rad
      in (sin (dlat / 2))\<^sup>2 + cos lat1_rad * cos lat2_rad * (sin (dlon / 2))\<^sup>2)"

text \<open>
  Lines 62 to 65: \<open>c = 2 * asin(sqrt(a))\<close> and \<open>distance = Earth_Radius_km * c\<close>.
  \<open>sqrt\<close> and \<open>asin\<close> are applied to \<open>a\<close> as it is; each raises outside its domain.
\<close>

definition distance_of_a :: "real \<Rightarrow> error + real" where
  "distance_of_a a =
     (case py_sqrt a of
        Inl e \<Rightarrow> Inl e
      | Inr r \<Rightarrow>
          (case py_asin r of
             Inl e \<Rightarrow> Inl e
           | Inr s \<Rightarrow> Inr (Earth_Radius_km * (2 * s))))"

definition calculate_haversine_distance :: "real \<Rightarrow> real \<Rightarrow> real \<Rightarrow> real \<Rightarrow> error + real" where
  "calculate_haversine_distance lat1 lon1 lat2 lon2 =
     distance_of_a (haversine_a lat1 lon1 lat2 lon2)"

subsection \<open>The same lines on values that are not finite\<close>

text \<open>
  A Python float is a finite value, an infinity or NaN. On these, lines 54 to 65 are the
  same expressions with the arithmetic of floats: NaN goes through every operation,
  the difference of equal infinities is NaN, and \<^verbatim>\<open>math.sin\<close>, \<^verbatim>\<open>math.cos\<close> and
  \<^verbatim>\<open>math.asin\<close> raise the math domain error on an infinity, as \<^verbatim>\<open>math.sqrt\<close> does on
  the negative one. On finite values the operations are those of the reals.
\<close>

datatype pyfloat = Finite real | PosInf | NegInf | NaN

fun is_finite :: "pyfloat \<Rightarrow> bool" where
  "is_finite (Finite r) = True"
| "is_finite x = False"

fun f_sub :: "pyfloat \<Rightarrow> pyfloat \<Rightarrow> pyfloat" where
  "f_sub NaN y = NaN"
| "f_sub x NaN = NaN"
| "f_sub (Finite a) (Finite b) = Finite (a - b)"
| "f_sub (Finite a) PosInf = NegInf"
| "f_sub (Finite a) NegInf = PosInf"
| "f_sub PosInf PosInf = NaN"
| "f_sub PosInf y = PosInf"
| "f_sub NegInf NegInf = NaN"
| "f_sub NegInf y = NegInf"

fun f_add :: "pyfloat \<Rightarrow> pyfloat \<Rightarrow> pyfloat" where
  "f_add NaN y = NaN"
| "f_add x NaN = NaN"
| "f_add (Finite a) (Finite b) = Finite (a + b)"
| "f_add (Finite a) y = y"
| "f_add PosInf NegInf = NaN"
| "f_add PosInf y = PosInf"
| "f_add NegInf PosInf = NaN"
| "f_add NegInf y = NegInf"

text \<open>An infinity (the positive one or not) times a finite value.\<close>

definition f_inf_times :: "bool \<Rightarrow> real \<Rightarrow> pyfloat" where
  "f_inf_times positive a =
     (if a = 0 then NaN else if (0 < a) = positive then PosInf else NegInf)"

fun f_mul :: "pyfloat \<Rightarrow> pyfloat \<Rightarrow> pyfloat" where
  "f_mul NaN y = NaN"
| "f_mul x NaN = NaN"
| "f_mul (Finite a) (Finite b) = Finite (a * b)"
| "f_mul (Finite a) PosInf = f_inf_times True a"
| "f_mul (Finite a) NegInf = f_inf_times False a"
| "f_mul PosInf (Finite b) = f_inf_times True b"
| "f_mul NegInf (Finite b) = f_inf_times False b"
| "f_mul PosInf PosInf = PosInf"
| "f_mul NegInf NegInf = PosInf"
| "f_mul PosInf NegInf = NegInf"
| "f_mul NegInf PosInf = NegInf"

text \<open>\<open>x / 2\<close> and \<open>x ** 2\<close>.\<close>

fun f_half :: "pyfloat \<Rightarrow> pyfloat" where
  "f_half (Finite x) = Finite (x / 2)"
| "f_half x = x"

fun f_pow2 :: "pyfloat \<Rightarrow> pyfloat" where
  "f_pow2 (Finite x) = Finite (x\<^sup>2)"
| "f_pow2 NaN = NaN"
| "f_pow2 x = PosInf"

fun f_sin :: "pyfloat \<Rightarrow> error + pyfloat" where
  "f_sin (Finite x) = Inr (Finite (sin x))"
| "f_sin NaN = Inr NaN"
| "f_sin x = Inl ValueError"

fun f_cos :: "pyfloat \<Rightarrow> error + pyfloat" where
  "f_cos (Finite x) = Inr (Finite (cos x))"
| "f_cos NaN = Inr NaN"
| "f_cos x = Inl ValueError"

fun f_sqrt :: "pyfloat \<Rightarrow> error + pyfloat" where
  "f_sqrt (Finite x) = (if x < 0 then Inl ValueError else Inr (Finite (sqrt x)))"
| "f_sqrt NaN = Inr NaN"
| "f_sqrt PosInf = Inr PosInf"
| "f_sqrt NegInf = Inl ValueError"

fun f_asin :: "pyfloat \<Rightarrow> error + pyfloat" where
  "f_asin (Finite x) = (if x < - 1 \<or> 1 < x then Inl ValueError else Inr (Finite (arcsin x)))"
| "f_asin NaN = Inr NaN"
| "f_asin x = Inl ValueError"

definition f_radians :: "pyfloat \<Rightarrow> pyfloat" where
  "f_radians x = f_mul x (Finite (pi / 180))"

text \<open>
  Lines 51 to 65 on these values; the calls of line 61 are made from left to right.
\<close>

definition calculate_haversine_distance_ext ::
  "pyfloat \<Rightarrow> pyfloat \<Rightarrow> pyfloat \<Rightarrow> pyfloat \<Rightarrow> error + pyfloat" where
  "calculate_haversine_distance_ext lat1 lon1 lat2 lon2 =
     (let lat1_rad = f_radians lat1; lon1_rad = f_radians lon1;
          lat2_rad = f_radians lat2; lon2_rad = f_radians lon2;
          dlon = f_sub lon2_rad lon1_rad;
          dlat = f_sub lat2_rad lat1_rad
      in bind_err (f_sin (f_half dlat)) (\<lambda>s1.
         bind_err (f_cos lat1_rad) (\<lambda>c1.
         bind_err (f_cos lat2_rad) (\<lambda>c2.
         bind_err (f_sin (f_half dlon)) (\<lambda>s2.
         let a = f_add (f_pow2 s1) (f_mul (f_mul c1 c2) (f_pow2 s2)) in
         bind_err (f_sqrt a) (\<lambda>r.
         bind_err (f_asin r) (\<lambda>s.
         let c = f_mul (Finite 2) s in
         Inr (f_mul (Finite Earth_Radius_km) c))))))))"

subsection \<open>What the spec adds to the formula\<close>

text \<open>
  The spec asks for \<open>a\<close> to be clamped to \<open>[0,1]\<close> before the square root; lines 61 and
  62 of the script pass \<open>a\<close> to \<open>sqrt\<close> as it was computed. The clamp, in the spec's words:
\<close>

definition clamp01 :: "real \<Rightarrow> real" where
  "clamp01 a = max 0 (min 1 a)"

text \<open>The range of a CoordinatePair, in the spec's words (the script has no such check).\<close>

definition valid_coordinate :: "real \<Rightarrow> real \<Rightarrow> bool" where
  "valid_coordinate lat lon = (- 90 \<le> lat \<and> lat \<le> 90 \<and> - 180 \<le> lon \<and> lon \<le> 180)"

section \<open>The table\<close>

text \<open>
  A \<^verbatim>\<open>DataFrame\<close> is the list of its columns in column order, each with its name.
  \<^verbatim>\<open>trip_id\<close> is a column of integers, every other column holds floats.
\<close>

datatype column = IntCol "int list" | FloatCol "real list"

type_synonym dataframe = "(string \<times> column) list"

fun floats :: "column \<Rightarrow> real list" where
  "floats (IntCol xs) = map real_of_int xs"
| "floats (FloatCol xs) = xs"

text \<open>\<^verbatim>\<open>df[name]\<close>: the column, or \<^verbatim>\<open>KeyError\<close>.\<close>

definition get_col :: "string \<Rightarrow> dataframe \<Rightarrow> error + column" where
  "get_col name df = (case map_of df name of None \<Rightarrow> Inl (KeyError name) | Some c \<Rightarrow> Inr c)"

definition get_floats :: "string \<Rightarrow> dataframe \<Rightarrow> error + real list" where
  "get_floats name df = bind_err (get_col name df) (\<lambda>c. Inr (floats c))"

text \<open>
  \<^verbatim>\<open>df[name] = values\<close>: a column of that name is replaced where it stands, a new name
  is appended as the last column. Every assignment of the script stores values computed
  row by row from columns of the same table, so the lengths agree.
\<close>

fun set_col :: "string \<Rightarrow> column \<Rightarrow> dataframe \<Rightarrow> dataframe" where
  "set_col name c [] = [(name, c)]"
| "set_col name c ((n, old) # df) =
     (if n = name then (n, c) # df else (n, old) # set_col name c df)"

text \<open>\<^verbatim>\<open>df[[names]]\<close>: the named columns in the order asked for.\<close>

fun select :: "string list \<Rightarrow> dataframe \<Rightarrow> error + dataframe" where
  "select [] df = Inr []"
| "select (name # names) df =
     (case get_col name df of
        Inl e \<Rightarrow> Inl e
      | Inr c \<Rightarrow> (case select names df of Inl e \<Rightarrow> Inl e | Inr rest \<Rightarrow> Inr ((name, c) # rest)))"

text \<open>
  The dictionary \<^verbatim>\<open>trip_data\<close> (lines 30 to 36), for any five lists of values, and
  \<^verbatim>\<open>pd.DataFrame\<close> of a dictionary (line 37), which refuses lists of different lengths.
\<close>

definition trip_data ::
  "int list \<Rightarrow> real list \<Rightarrow> real list \<Rightarrow> real list \<Rightarrow> real list \<Rightarrow> dataframe" where
  "trip_data trip_id pickup_lat pickup_lon dropoff_lat dropoff_lon =
     [(''trip_id'', IntCol trip_id),
      (''pickup_lat'', FloatCol pickup_lat),
      (''pickup_lon'', FloatCol pickup_lon),
      (''dropoff_lat'', FloatCol dropoff_lat),
      (''dropoff_lon'', FloatCol dropoff_lon)]"

definition pd_DataFrame :: "dataframe \<Rightarrow> error + dataframe" where
  "pd_DataFrame d =
     (case d of
        [] \<Rightarrow> Inr []
      | (n, c) # rest \<Rightarrow>
          if list_all (\<lambda>(m, c'). length (floats c') = length (floats c)) rest
          then Inr d else Inl ValueError)"

section \<open>The four stages\<close>

subsection \<open>Method 1 over the table (lines 69 to 75)\<close>

fun apply_rows :: "('r \<Rightarrow> error + 'a) \<Rightarrow> 'r list \<Rightarrow> error + 'a list" where
  "apply_rows f [] = Inr []"
| "apply_rows f (r # rs) =
     (case f r of
        Inl e \<Rightarrow> Inl e
      | Inr v \<Rightarrow> (case apply_rows f rs of Inl e \<Rightarrow> Inl e | Inr vs \<Rightarrow> Inr (v # vs)))"

definition haversine_stage :: "dataframe \<Rightarrow> error + dataframe" where
  "haversine_stage df =
     bind_err (get_floats ''pickup_lat'' df) (\<lambda>pickup_lat.
     bind_err (get_floats ''pickup_lon'' df) (\<lambda>pickup_lon.
     bind_err (get_floats ''dropoff_lat'' df) (\<lambda>dropoff_lat.
     bind_err (get_floats ''dropoff_lon'' df) (\<lambda>dropoff_lon.
     bind_err (apply_rows (\<lambda>(lat1, lon1, lat2, lon2). calculate_haversine_distance lat1 lon1 lat2 lon2)
                 (zip pickup_lat (zip pickup_lon (zip dropoff_lat dropoff_lon)))) (\<lambda>distance.
     Inr (set_col ''distance_km'' (FloatCol distance) df))))))"

subsection \<open>Method 2: the projection (lines 89 to 99)\<close>

text \<open>
  The projection from EPSG:4326 to EPSG:32618 is geopandas' work, outside the script: it
  is the parameter \<open>to_crs\<close>, which takes the point \<open>(lon, lat)\<close> to \<open>(x, y)\<close>.
\<close>

definition projection_stage :: "(real \<times> real \<Rightarrow> real \<times> real) \<Rightarrow> dataframe \<Rightarrow> error + dataframe" where
  "projection_stage to_crs df =
     bind_err (get_floats ''pickup_lon'' df) (\<lambda>pickup_lon.
     bind_err (get_floats ''pickup_lat'' df) (\<lambda>pickup_lat.
       let geometry_list = zip pickup_lon pickup_lat;
           projected_data = map to_crs geometry_list;
           df1 = set_col ''pickup_x_meters'' (FloatCol (map fst projected_data)) df
       in Inr (set_col ''pickup_y_meters'' (FloatCol (map snd projected_data)) df1)))"

subsection \<open>Method 3: sine and cosine (lines 113 to 120)\<close>

definition np_deg2rad :: "real list \<Rightarrow> real list" where
  "np_deg2rad xs = map (\<lambda>x. x * (pi / 180)) xs"

definition np_sin :: "real list \<Rightarrow> real list" where
  "np_sin xs = map sin xs"

definition np_cos :: "real list \<Rightarrow> real list" where
  "np_cos xs = map cos xs"

definition spherical_stage :: "dataframe \<Rightarrow> error + dataframe" where
  "spherical_stage df =
     bind_err (get_floats ''pickup_lon'' df) (\<lambda>pickup_lon.
       let df1 = set_col ''lon_rad'' (FloatCol (np_deg2rad pickup_lon)) df in
     bind_err (get_floats ''pickup_lat'' df1) (\<lambda>pickup_lat.
       let df2 = set_col ''lat_rad'' (FloatCol (np_deg2rad pickup_lat)) df1 in
     bind_err (get_floats ''lon_rad'' df2) (\<lambda>lon_rad.
       let df3 = set_col ''pickup_lon_sin'' (FloatCol (np_sin lon_rad)) df2 in
     bind_err (get_floats ''lon_rad'' df3) (\<lambda>lon_rad.
       let df4 = set_col ''pickup_lon_cos'' (FloatCol (np_cos lon_rad)) df3 in
     bind_err (get_floats ''lat_rad'' df4) (\<lambda>lat_rad.
       let df5 = set_col ''pickup_lat_sin'' (FloatCol (np_sin lat_rad)) df4 in
     bind_err (get_floats ''lat_rad'' df5) (\<lambda>lat_rad.
       Inr (set_col ''pickup_lat_cos'' (FloatCol (np_cos lat_rad)) df5)))))))"

subsection \<open>Method 4: the range scaler (lines 134 to 139)\<close>

text \<open>
  \<^verbatim>\<open>MinMaxScaler\<close> and its \<^verbatim>\<open>fit_transform\<close> are scikit-learn's and are not under
  src/; the script only calls them. They are modelled from section 4.4 of the spec:
  \<open>fit\<close> takes the minimum and the maximum of each dimension of the batch presented to
  it, \<open>transform\<close> applies \<open>(value - min) / (max - min)\<close>, and a dimension with
  \<open>max = min\<close> must not divide by zero (the policy given there: output 0). The steps
  are arranged as the library arranges them: the range of a dimension, a zero range
  replaced by 1, a factor \<open>1 / range\<close>, an offset \<open>0 - min * factor\<close>, and
  \<open>value * factor + offset\<close>. A batch is the list of its dimensions (columns).
\<close>

text \<open>Modelled from the spec: ScalerState, the minimum and maximum of one dimension.\<close>

record scaler_state =
  data_min :: real
  data_max :: real

text \<open>
  Modelled from the spec: \<open>fit\<close> of one dimension (scikit-learn's, not under src/): the
  minimum and maximum of the values presented; a dimension with no entry cannot be fitted.
\<close>

definition fit_column :: "real list \<Rightarrow> error + scaler_state" where
  "fit_column xs =
     (case xs of
        [] \<Rightarrow> Inl ValueError
      | x # rest \<Rightarrow> Inr \<lparr>data_min = fold min rest x, data_max = fold max rest x\<rparr>)"

text \<open>Modelled from the spec: \<open>fit\<close> of a batch (scikit-learn's), dimension by dimension.\<close>

fun fit :: "real list list \<Rightarrow> error + scaler_state list" where
  "fit [] = Inr []"
| "fit (xs # cols) =
     (case fit_column xs of
        Inl e \<Rightarrow> Inl e
      | Inr st \<Rightarrow> (case fit cols of Inl e \<Rightarrow> Inl e | Inr sts \<Rightarrow> Inr (st # sts)))"

text \<open>
  Modelled from the spec: the policy for \<open>max = min\<close> (scikit-learn's, not under src/):
  a range of zero is replaced by 1, so that nothing is divided by zero and every value
  of that dimension is scaled to 0.
\<close>

definition handle_zeros_in_scale :: "real \<Rightarrow> real" where
  "handle_zeros_in_scale r = (if r = 0 then 1 else r)"

text \<open>
  Modelled from the spec: the factor of a dimension for the target range \<open>[0,1]\<close>
  (scikit-learn's \<^verbatim>\<open>scale_\<close>).
\<close>

definition scale_factor :: "scaler_state \<Rightarrow> real" where
  "scale_factor st = (1 - 0) / handle_zeros_in_scale (data_max st - data_min st)"

text \<open>Modelled from the spec: the offset of a dimension (scikit-learn's \<^verbatim>\<open>min_\<close>).\<close>

definition min_offset :: "scaler_state \<Rightarrow> real" where
  "min_offset st = 0 - data_min st * scale_factor st"

text \<open>Modelled from the spec: \<open>transform\<close> of one value (scikit-learn's, not under src/).\<close>

definition transform_value :: "scaler_state \<Rightarrow> real \<Rightarrow> real" where
  "transform_value st v = v * scale_factor st + min_offset st"

text \<open>Modelled from the spec: \<open>transform\<close> of a batch (scikit-learn's), each dimension with its state.\<close>

definition transform :: "scaler_state list \<Rightarrow> real list list \<Rightarrow> real list list" where
  "transform sts cols = map (\<lambda>(st, xs). map (transform_value st) xs) (zip sts cols)"

text \<open>
  Modelled from the spec: \<open>fit_transform\<close> (scikit-learn's, not under src/): the state is
  fitted on the batch and applied to the same batch; a batch with no dimension cannot be
  fitted.
\<close>

definition fit_transform :: "real list list \<Rightarrow> error + real list list" where
  "fit_transform cols =
     (if cols = [] then Inl ValueError
      else bind_err (fit cols) (\<lambda>sts. Inr (transform sts cols)))"

text \<open>The formula of the spec, as the spec writes it.\<close>

definition spec_scaled :: "real \<Rightarrow> real \<Rightarrow> real \<Rightarrow> real" where
  "spec_scaled mn mx v = (v - mn) / (mx - mn)"

definition minmax_stage :: "dataframe \<Rightarrow> error + dataframe" where
  "minmax_stage df =
     bind_err (select [''pickup_x_meters'', ''pickup_y_meters''] df) (\<lambda>sel.
     bind_err (fit_transform (map (\<lambda>(n, c). floats c) sel)) (\<lambda>scaled.
       case scaled of
         [x_scaled, y_scaled] \<Rightarrow>
           Inr (set_col ''pickup_y_scaled'' (FloatCol y_scaled)
                  (set_col ''pickup_x_scaled'' (FloatCol x_scaled) df))
       | _ \<Rightarrow> Inl ValueError))"

section \<open>The script as a whole\<close>

definition my_data_table ::
  "(real \<times> real \<Rightarrow> real \<times> real) \<Rightarrow>
   int list \<Rightarrow> real list \<Rightarrow> real list \<Rightarrow> real list \<Rightarrow> real list \<Rightarrow> error + dataframe" where
  "my_data_table to_crs trip_id pickup_lat pickup_lon dropoff_lat dropoff_lon =
     bind_err (pd_DataFrame (trip_data trip_id pickup_lat pickup_lon dropoff_lat dropoff_lon)) (\<lambda>t0.
     bind_err (haversine_stage t0) (\<lambda>t1.
     bind_err (projection_stage to_crs t1) (\<lambda>t2.
     bind_err (spherical_stage t2) (\<lambda>t3.
     minmax_stage t3))))"

text \<open>The names that the four stages assign, stage by stage (lines 69, 98 to 99, 113 to 120, 137).\<close>

definition stage_names :: "string list list" where
  "stage_names =
     [[''distance_km''],
      [''pickup_x_meters'', ''pickup_y_meters''],
      [''lon_rad'', ''lat_rad'', ''pickup_lon_sin'', ''pickup_lon_cos'',
       ''pickup_lat_sin'', ''pickup_lat_cos''],
      [''pickup_x_scaled'', ''pickup_y_scaled'']]"

text \<open>Lines 150 to 157: the columns shown at the end.\<close>

definition final_columns :: "string list" where
  "final_columns =
     [''trip_id'',
      ''pickup_lat'', ''pickup_lon'',
      ''distance_km'',
      ''pickup_x_meters'', ''pickup_y_meters'',
      ''pickup_lon_sin'', ''pickup_lon_cos'',
      ''pickup_x_scaled'', ''pickup_y_scaled'']"

definition final_output ::
  "(real \<times> real \<Rightarrow> real \<times> real) \<Rightarrow>
   int list \<Rightarrow> real list \<Rightarrow> real list \<Rightarrow> real list \<Rightarrow> real list \<Rightarrow> error + dataframe" where
  "final_output to_crs trip_id pickup_lat pickup_lon dropoff_lat dropoff_lon =
     bind_err (my_data_table to_crs trip_id pickup_lat pickup_lon dropoff_lat dropoff_lon)
       (select final_columns)"

text \<open>The fields that the spec (section 6) lists for the output record.\<close>

definition spec_output_fields :: "string list" where
  "spec_output_fields =
     [''trip_id'', ''distance_km'', ''pickup_x_meters'', ''pickup_y_meters'',
      ''pickup_lon_sin'', ''pickup_lon_cos'', ''pickup_lat_sin'', ''pickup_lat_cos'',
      ''pickup_x_scaled'', ''pickup_y_scaled'']"

definition exposes :: "string list \<Rightarrow> error + dataframe \<Rightarrow> bool" where
  "exposes names r = (case r of Inl e \<Rightarrow> False | Inr df \<Rightarrow> list_all (\<lambda>n. n \<in> set (map fst df)) names)"

subsection \<open>The data of the script\<close>

definition trip_id0 :: "int list" where
  "trip_id0 = [1, 2, 3]"

definition pickup_lat0 :: "real list" where
  "pickup_lat0 = [40.7580, 40.7585, 40.7600]"

definition pickup_lon0 :: "real list" where
  "pickup_lon0 = [- 73.9855, - 73.9860, - 73.9840]"

definition dropoff_lat0 :: "real list" where
  "dropoff_lat0 = [40.6900, 40.6905, 40.6920]"

definition dropoff_lon0 :: "real list" where
  "dropoff_lon0 = [- 73.9700, - 73.9705, - 73.9680]"

text \<open>
  A stand-in for the projection engine where a concrete run is evaluated: the grid
  that takes degrees as they are.
\<close>

definition degrees_grid :: "real \<times> real \<Rightarrow> real \<times> real" where
  "degrees_grid p = (case p of (lon, lat) \<Rightarrow> (lon, lat))"

section \<open>Properties of the haversine distance\<close>

lemma bind_err_Inr [simp]: "bind_err (Inr x) f = f x"
  by (simp add: bind_err_def)

lemma bind_err_Inl [simp]: "bind_err (Inl e) f = Inl e"
  by (simp add: bind_err_def)

lemma cos_sq_minus_sin_sq:
  fixes A B :: real
  shows "(cos A)\<^sup>2 - (sin B)\<^sup>2 = cos (A + B) * cos (A - B)"
proof -
  have sA: "(sin A)\<^sup>2 = 1 - (cos A)\<^sup>2" by (rule sin_squared_eq)
  have cB: "(cos B)\<^sup>2 = 1 - (sin B)\<^sup>2" by (rule cos_squared_eq)
  have "cos (A + B) * cos (A - B)
      = (cos A * cos B - sin A * sin B) * (cos A * cos B + sin A * sin B)"
    by (simp only: cos_add cos_diff)
  also have "\<dots> = (cos A)\<^sup>2 * (cos B)\<^sup>2 - (sin A)\<^sup>2 * (sin B)\<^sup>2"
    by (simp only: power2_eq_square) algebra
  also have "\<dots> = (cos A)\<^sup>2 * (1 - (sin B)\<^sup>2) - (1 - (cos A)\<^sup>2) * (sin B)\<^sup>2"
    by (simp only: sA cB)
  also have "\<dots> = (cos A)\<^sup>2 - (sin B)\<^sup>2"
    by algebra
  finally show ?thesis by simp
qed

lemma haversine_a_split:
  "haversine_a lat1 lon1 lat2 lon2 =
     (sin ((radians lat2 - radians lat1) / 2))\<^sup>2 * (cos ((radians lon2 - radians lon1) / 2))\<^sup>2
   + (cos ((radians lat2 + radians lat1) / 2))\<^sup>2 * (sin ((radians lon2 - radians lon1) / 2))\<^sup>2"
proof -
  define p where "p = radians lat1"
  define q where "q = radians lat2"
  define D where "D = (radians lon2 - radians lon1) / 2"
  have pq: "cos p * cos q = (cos ((q + p) / 2))\<^sup>2 - (sin ((q - p) / 2))\<^sup>2"
    using cos_sq_minus_sin_sq [of "(q + p) / 2" "(q - p) / 2"]
    by (simp add: field_simps)
  have "haversine_a lat1 lon1 lat2 lon2
      = (sin ((q - p) / 2))\<^sup>2 + cos p * cos q * (sin D)\<^sup>2"
    by (simp add: haversine_a_def Let_def p_def q_def D_def)
  also have "\<dots> = (sin ((q - p) / 2))\<^sup>2 * (1 - (sin D)\<^sup>2)
                  + (cos ((q + p) / 2))\<^sup>2 * (sin D)\<^sup>2"
    by (simp add: pq algebra_simps)
  also have "\<dots> = (sin ((q - p) / 2))\<^sup>2 * (cos D)\<^sup>2
                  + (cos ((q + p) / 2))\<^sup>2 * (sin D)\<^sup>2"
    by (simp add: cos_squared_eq)
  finally show ?thesis by (simp add: p_def q_def D_def)
qed

lemma haversine_a_nonneg: "0 \<le> haversine_a lat1 lon1 lat2 lon2"
  unfolding haversine_a_split by (intro add_nonneg_nonneg mult_nonneg_nonneg zero_le_power2)

lemma haversine_a_le_one: "haversine_a lat1 lon1 lat2 lon2 \<le> 1"
proof -
  define D where "D = (radians lon2 - radians lon1) / 2"
  define s where "s = (sin ((radians lat2 - radians lat1) / 2))\<^sup>2"
  define c where "c = (cos ((radians lat2 + radians lat1) / 2))\<^sup>2"
  have s1: "s \<le> 1" and c1: "c \<le> 1"
    by (simp_all add: s_def c_def sin_squared_eq [of "(radians lat2 - radians lat1) / 2"]
        cos_squared_eq [of "(radians lat2 + radians lat1) / 2"])
  have "haversine_a lat1 lon1 lat2 lon2 = s * (cos D)\<^sup>2 + c * (sin D)\<^sup>2"
    by (simp add: haversine_a_split s_def c_def D_def)
  also have "\<dots> \<le> 1 * (cos D)\<^sup>2 + 1 * (sin D)\<^sup>2"
    by (intro add_mono mult_right_mono s1 c1 zero_le_power2)
  also have "\<dots> = 1"
    by (simp add: add.commute)
  finally show ?thesis .
qed

lemma distance_of_a_unit:
  assumes "0 \<le> a" and "a \<le> 1"
  shows "distance_of_a a = Inr (Earth_Radius_km * (2 * arcsin (sqrt a)))"
proof -
  have "sqrt a \<le> 1" using assms by simp
  moreover have "0 \<le> sqrt a" using assms by simp
  ultimately have "\<not> (sqrt a < - 1 \<or> 1 < sqrt a)" by linarith
  then show ?thesis
    using assms by (simp add: distance_of_a_def py_sqrt_def py_asin_def)
qed

lemma haversine_returns:
  "calculate_haversine_distance lat1 lon1 lat2 lon2 =
     Inr (Earth_Radius_km * (2 * arcsin (sqrt (haversine_a lat1 lon1 lat2 lon2))))"
  unfolding calculate_haversine_distance_def
  by (rule distance_of_a_unit [OF haversine_a_nonneg haversine_a_le_one])

lemma haversine_a_same: "haversine_a lat lon lat lon = 0"
  by (simp add: haversine_a_def)

lemma haversine_a_commute:
  "haversine_a lat1 lon1 lat2 lon2 = haversine_a lat2 lon2 lat1 lon1"
proof -
  have flip: "(sin ((x - y) / 2))\<^sup>2 = (sin ((y - x) / 2))\<^sup>2" for x y :: real
  proof -
    have "(x - y) / 2 = - ((y - x) / 2)" by argo
    then have "sin ((x - y) / 2) = - sin ((y - x) / 2)"
      by (simp only: sin_minus)
    then show ?thesis by simp
  qed
  show ?thesis
    unfolding haversine_a_def Let_def
    by (simp only: flip [of "radians lat2" "radians lat1"]
          flip [of "radians lon2" "radians lon1"] mult.commute [of "cos (radians lat1)"])
qed

text \<open>
  Claim C1, as stated: a call with a latitude outside \<open>[-90,90]\<close> or a longitude outside
  \<open>[-180,180]\<close> fails with InvalidCoordinate. The script checks nothing: the call with
  latitude 100 on both points returns the number 0.
\<close>

theorem haversine_out_of_range_returns:
  "\<not> valid_coordinate 100 0 \<and> calculate_haversine_distance 100 0 100 0 = Inr 0"
  by (simp add: valid_coordinate_def haversine_returns haversine_a_same)

lemma haversine_ext_finite:
  "calculate_haversine_distance_ext (Finite lat1) (Finite lon1) (Finite lat2) (Finite lon2) =
     (case calculate_haversine_distance lat1 lon1 lat2 lon2 of
        Inl e \<Rightarrow> Inl e | Inr d \<Rightarrow> Inr (Finite d))"
  by (simp add: calculate_haversine_distance_ext_def calculate_haversine_distance_def
        distance_of_a_def haversine_a_def py_sqrt_def py_asin_def radians_def f_radians_def
        Let_def)

lemma haversine_ext_same:
  "calculate_haversine_distance_ext (Finite lat) (Finite lon) (Finite lat) (Finite lon)
     = Inr (Finite 0)"
  by (simp add: calculate_haversine_distance_ext_def f_radians_def Let_def)

lemma haversine_ext_nonfinite:
  assumes "\<not> (is_finite lat1 \<and> is_finite lon1 \<and> is_finite lat2 \<and> is_finite lon2)"
  shows "calculate_haversine_distance_ext lat1 lon1 lat2 lon2 = Inl ValueError
       \<or> calculate_haversine_distance_ext lat1 lon1 lat2 lon2 = Inr NaN"
  using assms
  by (cases lat1; cases lon1; cases lat2; cases lon2)
     (simp_all add: calculate_haversine_distance_ext_def f_radians_def f_inf_times_def Let_def)

text \<open>
  Claim C1, amended: the function checks nothing and has no InvalidCoordinate. A point
  outside the WGS84 ranges is not refused: given as both points of the call it yields
  the distance 0. An input that is NaN or an infinity is not refused as such either:
  the call raises the math domain error or returns NaN, and never a finite distance.
\<close>

theorem haversine_unvalidated:
  "(\<not> valid_coordinate lat lon \<longrightarrow>
      calculate_haversine_distance_ext (Finite lat) (Finite lon) (Finite lat) (Finite lon)
        = Inr (Finite 0))
   \<and> (\<not> (is_finite lat1 \<and> is_finite lon1 \<and> is_finite lat2 \<and> is_finite lon2) \<longrightarrow>
        calculate_haversine_distance_ext lat1 lon1 lat2 lon2 = Inl ValueError
      \<or> calculate_haversine_distance_ext lat1 lon1 lat2 lon2 = Inr NaN)"
  using haversine_ext_same [of lat lon] haversine_ext_nonfinite [of lat1 lon1 lat2 lon2]
  by blast

text \<open>
  A point with latitude - 95 and longitude 200; a call with a NaN latitude, which
  returns NaN; a call with an infinite longitude, which raises.
\<close>

theorem haversine_unvalidated_witness:
  "\<not> valid_coordinate (- 95) 200
   \<and> calculate_haversine_distance_ext (Finite (- 95)) (Finite 200) (Finite (- 95)) (Finite 200)
       = Inr (Finite 0)
   \<and> \<not> (is_finite NaN \<and> is_finite (Finite 0) \<and> is_finite (Finite 0) \<and> is_finite (Finite 0))
   \<and> calculate_haversine_distance_ext NaN (Finite 0) (Finite 0) (Finite 0) = Inr NaN
   \<and> \<not> (is_finite (Finite 0) \<and> is_finite PosInf \<and> is_finite (Finite 0) \<and> is_finite (Finite 0))
   \<and> calculate_haversine_distance_ext (Finite 0) PosInf (Finite 0) (Finite 0) = Inl ValueError"
proof -
  have out: "\<not> valid_coordinate (- 95) 200"
    by (simp add: valid_coordinate_def)
  have n1: "\<not> (is_finite NaN \<and> is_finite (Finite 0) \<and> is_finite (Finite 0) \<and> is_finite (Finite 0))"
    and n2: "\<not> (is_finite (Finite 0) \<and> is_finite PosInf \<and> is_finite (Finite 0) \<and> is_finite (Finite 0))"
    by simp_all
  have same: "calculate_haversine_distance_ext (Finite (- 95)) (Finite 200) (Finite (- 95)) (Finite 200)
       = Inr (Finite 0)"
    using haversine_unvalidated [of "- 95" 200] out by blast
  have "calculate_haversine_distance_ext NaN (Finite 0) (Finite 0) (Finite 0) \<noteq> Inl ValueError"
    by (simp add: calculate_haversine_distance_ext_def f_radians_def Let_def)
  then have nan: "calculate_haversine_distance_ext NaN (Finite 0) (Finite 0) (Finite 0) = Inr NaN"
    using haversine_unvalidated [of _ _ NaN "Finite 0" "Finite 0" "Finite 0"] n1 by blast
  have "calculate_haversine_distance_ext (Finite 0) PosInf (Finite 0) (Finite 0) \<noteq> Inr NaN"
    by (simp add: calculate_haversine_distance_ext_def f_radians_def f_inf_times_def Let_def)
  then have inf: "calculate_haversine_distance_ext (Finite 0) PosInf (Finite 0) (Finite 0) = Inl ValueError"
    using haversine_unvalidated [of _ _ "Finite 0" PosInf "Finite 0" "Finite 0"] n2 by blast
  show ?thesis
    using out n1 n2 same nan inf by blast
qed

text \<open>
  In exact arithmetic \<open>a\<close> lies in \<open>[0,1]\<close> for all inputs, so the clamp of the spec would
  leave every \<open>a\<close> as it is, and a computation with the clamp and one without it are the
  same function. Whether the script clamps shows only where rounding takes \<open>a\<close> out of
  \<open>[0,1]\<close>, which the reals do not have.
\<close>

lemma clamp01_haversine_a:
  "clamp01 (haversine_a lat1 lon1 lat2 lon2) = haversine_a lat1 lon1 lat2 lon2"
  using haversine_a_nonneg [of lat1 lon1 lat2 lon2] haversine_a_le_one [of lat1 lon1 lat2 lon2]
  by (simp add: clamp01_def)

text \<open>
  Claim C3: the distance is symmetric: exchanging the two points gives the same result
  (for all inputs, so for all pairs within the WGS84 ranges).
\<close>

theorem haversine_symmetric:
  "calculate_haversine_distance lat1 lon1 lat2 lon2
     = calculate_haversine_distance lat2 lon2 lat1 lon1"
  unfolding calculate_haversine_distance_def
  by (simp only: haversine_a_commute [of lat1 lon1 lat2 lon2])

text \<open>Claim C4: the distance from a point to itself is exactly 0.\<close>

theorem haversine_self_zero:
  "calculate_haversine_distance lat lon lat lon = Inr 0"
  by (simp add: haversine_returns haversine_a_same)


section \<open>The table and the stages\<close>

lemma get_col_set_col_same: "get_col n (set_col n c df) = Inr c"
  by (induction df) (auto simp: get_col_def)

lemma get_col_set_col_other: "m \<noteq> n \<Longrightarrow> get_col m (set_col n c df) = get_col m df"
  by (induction df) (auto simp: get_col_def)

lemma get_floats_set_col_same: "get_floats n (set_col n c df) = Inr (floats c)"
  by (simp add: get_floats_def get_col_set_col_same)

lemma get_floats_set_col_other: "m \<noteq> n \<Longrightarrow> get_floats m (set_col n c df) = get_floats m df"
  by (simp add: get_floats_def get_col_set_col_other)

lemma apply_rows_total:
  assumes "\<And>r. f r = Inr (g r)"
  shows "apply_rows f rs = Inr (map g rs)"
  by (induction rs) (simp_all add: assms)

section \<open>The spherical encoding\<close>

lemma unit_circle:
  "list_all2 (\<lambda>s c. - 1 \<le> s \<and> s \<le> 1 \<and> - 1 \<le> c \<and> c \<le> 1 \<and> s\<^sup>2 + c\<^sup>2 = 1)
     (np_sin (np_deg2rad xs)) (np_cos (np_deg2rad xs))"
  by (induction xs) (simp_all add: np_sin_def np_cos_def np_deg2rad_def)

text \<open>
  Claim C6: the encoding of the pickup longitude and latitude columns (degrees to
  radians, then sine and cosine) gives, for every angle, a sine and a cosine that each
  lie in \<open>[-1,1]\<close> and whose squares add up to 1; there is one such pair for every entry
  of the column.
\<close>

theorem spherical_encoding_unit_circle:
  assumes "get_floats ''pickup_lon'' df = Inr lon"
    and "get_floats ''pickup_lat'' df = Inr lat"
  shows "\<exists>df'. spherical_stage df = Inr df'
     \<and> get_col ''pickup_lon_sin'' df' = Inr (FloatCol (np_sin (np_deg2rad lon)))
     \<and> get_col ''pickup_lon_cos'' df' = Inr (FloatCol (np_cos (np_deg2rad lon)))
     \<and> get_col ''pickup_lat_sin'' df' = Inr (FloatCol (np_sin (np_deg2rad lat)))
     \<and> get_col ''pickup_lat_cos'' df' = Inr (FloatCol (np_cos (np_deg2rad lat)))
     \<and> list_all2 (\<lambda>s c. - 1 \<le> s \<and> s \<le> 1 \<and> - 1 \<le> c \<and> c \<le> 1 \<and> s\<^sup>2 + c\<^sup>2 = 1)
          (np_sin (np_deg2rad lon)) (np_cos (np_deg2rad lon))
     \<and> list_all2 (\<lambda>s c. - 1 \<le> s \<and> s \<le> 1 \<and> - 1 \<le> c \<and> c \<le> 1 \<and> s\<^sup>2 + c\<^sup>2 = 1)
          (np_sin (np_deg2rad lat)) (np_cos (np_deg2rad lat))
     \<and> length (np_sin (np_deg2rad lon)) = length lon
     \<and> length (np_sin (np_deg2rad lat)) = length lat"
  using assms
  by (simp add: spherical_stage_def Let_def get_floats_set_col_same get_floats_set_col_other
        get_col_set_col_same get_col_set_col_other unit_circle)
    (simp add: np_sin_def np_deg2rad_def)

text \<open>The encoding of the pickup columns of the script.\<close>

theorem spherical_encoding_unit_circle_witness:
  "get_floats ''pickup_lon''
       (trip_data trip_id0 pickup_lat0 pickup_lon0 dropoff_lat0 dropoff_lon0) = Inr pickup_lon0
   \<and> get_floats ''pickup_lat''
       (trip_data trip_id0 pickup_lat0 pickup_lon0 dropoff_lat0 dropoff_lon0) = Inr pickup_lat0
   \<and> (\<exists>df'. spherical_stage (trip_data trip_id0 pickup_lat0 pickup_lon0 dropoff_lat0 dropoff_lon0)
                = Inr df'
          \<and> get_col ''pickup_lon_sin'' df' = Inr (FloatCol (np_sin (np_deg2rad pickup_lon0)))
          \<and> get_col ''pickup_lon_cos'' df' = Inr (FloatCol (np_cos (np_deg2rad pickup_lon0)))
          \<and> list_all2 (\<lambda>s c. - 1 \<le> s \<and> s \<le> 1 \<and> - 1 \<le> c \<and> c \<le> 1 \<and> s\<^sup>2 + c\<^sup>2 = 1)
               (np_sin (np_deg2rad pickup_lon0)) (np_cos (np_deg2rad pickup_lon0))
          \<and> length (np_sin (np_deg2rad pickup_lon0)) = 3)"
proof -
  have h1: "get_floats ''pickup_lon''
       (trip_data trip_id0 pickup_lat0 pickup_lon0 dropoff_lat0 dropoff_lon0) = Inr pickup_lon0"
    by (simp add: trip_data_def get_floats_def get_col_def)
  have h2: "get_floats ''pickup_lat''
       (trip_data trip_id0 pickup_lat0 pickup_lon0 dropoff_lat0 dropoff_lon0) = Inr pickup_lat0"
    by (simp add: trip_data_def get_floats_def get_col_def)
  have "length pickup_lon0 = 3" by (simp add: pickup_lon0_def)
  with spherical_encoding_unit_circle [OF h1 h2] h1 h2 show ?thesis
    by auto
qed

section \<open>The range scaler\<close>

lemma fit_column_bounds:
  assumes "fit_column xs = Inr st"
  shows "xs \<noteq> [] \<and> data_min st = Min (set xs) \<and> data_max st = Max (set xs)"
proof (cases xs)
  case Nil
  with assms show ?thesis by (simp add: fit_column_def)
next
  case (Cons x rest)
  with assms have "st = \<lparr>data_min = fold min rest x, data_max = fold max rest x\<rparr>"
    by (simp add: fit_column_def)
  moreover have "Min (set (x # rest)) = fold min rest x" "Max (set (x # rest)) = fold max rest x"
    by (rule Min.set_eq_fold, rule Max.set_eq_fold)
  ultimately show ?thesis
    using Cons by simp
qed

lemma fit_column_nonempty:
  "xs \<noteq> [] \<Longrightarrow> \<exists>st. fit_column xs = Inr st"
  by (cases xs) (simp_all add: fit_column_def)

lemma fit_length:
  "fit cols = Inr sts \<Longrightarrow> length sts = length cols"
  by (induction cols arbitrary: sts) (auto split: sum.splits)

lemma fit_nth:
  "fit cols = Inr sts \<Longrightarrow> i < length cols \<Longrightarrow> fit_column (cols ! i) = Inr (sts ! i)"
proof (induction cols arbitrary: sts i)
  case Nil
  then show ?case by simp
next
  case (Cons xs cols)
  then show ?case
    by (cases i) (auto split: sum.splits)
qed

lemma fit_returns:
  "\<forall>c \<in> set cols. c \<noteq> [] \<Longrightarrow> \<exists>sts. fit cols = Inr sts"
proof (induction cols)
  case Nil
  then show ?case by simp
next
  case (Cons xs cols)
  then obtain st sts where "fit_column xs = Inr st" "fit cols = Inr sts"
    using fit_column_nonempty [of xs] by auto
  then show ?case by simp
qed

lemma transform_nth:
  "length sts = length cols \<Longrightarrow> i < length cols \<Longrightarrow>
     transform sts cols ! i = map (transform_value (sts ! i)) (cols ! i)"
  by (simp add: transform_def)

lemma transform_length: "length sts = length cols \<Longrightarrow> length (transform sts cols) = length cols"
  by (simp add: transform_def)

lemma handle_zeros_nonzero: "handle_zeros_in_scale r \<noteq> 0"
  by (simp add: handle_zeros_in_scale_def)

lemma transform_value_spec:
  "data_min st < data_max st \<Longrightarrow>
     transform_value st v = spec_scaled (data_min st) (data_max st) v"
  by (simp add: transform_value_def min_offset_def scale_factor_def handle_zeros_in_scale_def
        spec_scaled_def diff_divide_distrib)

lemma transform_value_degenerate:
  "data_min st = data_max st \<Longrightarrow> transform_value st v = v - data_min st"
  by (simp add: transform_value_def min_offset_def scale_factor_def handle_zeros_in_scale_def)

lemma spec_scaled_unit:
  assumes "mn < mx" "mn \<le> v" "v \<le> mx"
  shows "0 \<le> spec_scaled mn mx v \<and> spec_scaled mn mx v \<le> 1"
  using assms by (simp add: spec_scaled_def)

lemma spec_scaled_ends:
  "mn < mx \<Longrightarrow> spec_scaled mn mx mn = 0 \<and> spec_scaled mn mx mx = 1"
  by (simp add: spec_scaled_def)

text \<open>
  Claim C7: for a fitted batch and a dimension whose maximum exceeds its minimum, the
  scaler returns, for every entry of the dimension, \<open>(value - min) / (max - min)\<close>; the
  output lies in \<open>[0,1]\<close>, an entry equal to the minimum gives exactly 0 and an entry
  equal to the maximum gives exactly 1 (both occur in the dimension).
\<close>

theorem range_scaler_formula:
  assumes "fit cols = Inr sts" and "cols \<noteq> []" and "i < length cols"
    and "data_min (sts ! i) < data_max (sts ! i)"
  shows "\<exists>out. fit_transform cols = Inr out
     \<and> length out = length cols \<and> length (out ! i) = length (cols ! i)
     \<and> data_min (sts ! i) \<in> set (cols ! i) \<and> data_max (sts ! i) \<in> set (cols ! i)
     \<and> (\<forall>j < length (cols ! i).
           data_min (sts ! i) \<le> cols ! i ! j \<and> cols ! i ! j \<le> data_max (sts ! i)
         \<and> out ! i ! j = spec_scaled (data_min (sts ! i)) (data_max (sts ! i)) (cols ! i ! j)
         \<and> 0 \<le> out ! i ! j \<and> out ! i ! j \<le> 1
         \<and> (cols ! i ! j = data_min (sts ! i) \<longrightarrow> out ! i ! j = 0)
         \<and> (cols ! i ! j = data_max (sts ! i) \<longrightarrow> out ! i ! j = 1))"
proof -
  define xs where "xs = cols ! i"
  define st where "st = sts ! i"
  define mn where "mn = data_min st"
  define mx where "mx = data_max st"
  have len: "length sts = length cols"
    using assms(1) by (rule fit_length)
  have "fit_column xs = Inr st"
    using fit_nth [OF assms(1,3)] by (simp add: xs_def st_def)
  then have ne: "xs \<noteq> []" and mn: "mn = Min (set xs)" and mx: "mx = Max (set xs)"
    using fit_column_bounds [of xs st] by (simp_all add: mn_def mx_def)
  have lt: "mn < mx"
    using assms(4) by (simp add: mn_def mx_def st_def)
  have ft: "fit_transform cols = Inr (transform sts cols)"
    using assms(1,2) by (simp add: fit_transform_def)
  have outi: "transform sts cols ! i = map (spec_scaled mn mx) xs"
    using transform_nth [OF len assms(3)] transform_value_spec [of st] lt
    by (simp add: xs_def st_def mn_def mx_def)
  have mem: "mn \<in> set xs" "mx \<in> set xs"
    using ne by (simp_all add: mn mx)
  have rng: "mn \<le> xs ! j \<and> xs ! j \<le> mx" if "j < length xs" for j
    using that by (simp add: mn mx)
  have pt: "mn \<le> xs ! j \<and> xs ! j \<le> mx
         \<and> transform sts cols ! i ! j = spec_scaled mn mx (xs ! j)
         \<and> 0 \<le> transform sts cols ! i ! j \<and> transform sts cols ! i ! j \<le> 1
         \<and> (xs ! j = mn \<longrightarrow> transform sts cols ! i ! j = 0)
         \<and> (xs ! j = mx \<longrightarrow> transform sts cols ! i ! j = 1)" if "j < length xs" for j
    using that rng [OF that] spec_scaled_unit [OF lt, of "xs ! j"] spec_scaled_ends [OF lt]
    by (auto simp: outi)
  show ?thesis
    using ft transform_length [OF len] outi mem pt
    by (simp add: xs_def st_def mn_def mx_def)
qed

text \<open>
  The pickup longitudes of the script as the first dimension: - 73.9855 is scaled to
  1/4, the minimum - 73.9860 to 0 and the maximum - 73.9840 to 1.
\<close>

theorem range_scaler_formula_witness:
  "fit [pickup_lon0, pickup_lat0] =
      Inr [\<lparr>data_min = - 73.9860, data_max = - 73.9840\<rparr>, \<lparr>data_min = 40.7580, data_max = 40.7600\<rparr>]
   \<and> (\<exists>out. fit_transform [pickup_lon0, pickup_lat0] = Inr out
         \<and> out ! 0 ! 0 = 1 / 4 \<and> out ! 0 ! 1 = 0 \<and> out ! 0 ! 2 = 1)"
proof -
  let ?sts = "[\<lparr>data_min = - 73.9860, data_max = - 73.9840\<rparr>,
               \<lparr>data_min = 40.7580, data_max = 40.7600\<rparr>] :: scaler_state list"
  have h1: "fit [pickup_lon0, pickup_lat0] = Inr ?sts"
    by (simp add: pickup_lon0_def pickup_lat0_def fit_column_def)
  have h2: "[pickup_lon0, pickup_lat0] \<noteq> []" by simp
  have h3: "(0::nat) < length [pickup_lon0, pickup_lat0]" by simp
  have h4: "data_min (?sts ! 0) < data_max (?sts ! 0)" by simp
  have v: "pickup_lon0 ! 0 = - 73.9855" "pickup_lon0 ! 1 = - 73.9860" "pickup_lon0 ! 2 = - 73.9840"
    "length pickup_lon0 = 3"
    by (simp_all add: pickup_lon0_def)
  obtain out where o: "fit_transform [pickup_lon0, pickup_lat0] = Inr out"
    and pt: "\<forall>j < length ([pickup_lon0, pickup_lat0] ! 0).
       out ! 0 ! j = spec_scaled (data_min (?sts ! 0)) (data_max (?sts ! 0))
                        ([pickup_lon0, pickup_lat0] ! 0 ! j)"
    using range_scaler_formula [OF h1 h2 h3 h4] by blast
  have "out ! 0 ! 0 = 1 / 4" "out ! 0 ! 1 = 0" "out ! 0 ! 2 = 1"
    using pt v by (simp_all add: spec_scaled_def)
  with h1 o show ?thesis by blast
qed

text \<open>
  Claim C8: for a batch with entries and a dimension whose maximum equals its minimum,
  the scaler returns a result; the divisor of that dimension is 1, not 0, and every
  entry of the dimension is scaled to 0.
\<close>

theorem range_scaler_zero_variance:
  assumes "cols \<noteq> []" and "\<forall>c \<in> set cols. c \<noteq> []" and "i < length cols"
    and "Min (set (cols ! i)) = Max (set (cols ! i))"
  shows "\<exists>sts out. fit cols = Inr sts \<and> fit_transform cols = Inr out
     \<and> length out = length cols
     \<and> data_min (sts ! i) = data_max (sts ! i)
     \<and> handle_zeros_in_scale (data_max (sts ! i) - data_min (sts ! i)) = 1
     \<and> out ! i = map (\<lambda>v. 0) (cols ! i)"
proof -
  obtain sts where sts: "fit cols = Inr sts"
    using fit_returns [OF assms(2)] by blast
  define xs where "xs = cols ! i"
  define st where "st = sts ! i"
  have len: "length sts = length cols"
    using sts by (rule fit_length)
  have "fit_column xs = Inr st"
    using fit_nth [OF sts assms(3)] by (simp add: xs_def st_def)
  then have ne: "xs \<noteq> []" and mn: "data_min st = Min (set xs)" and mx: "data_max st = Max (set xs)"
    using fit_column_bounds [of xs st] by simp_all
  have eq: "data_min st = data_max st"
    using assms(4) by (simp add: mn mx xs_def)
  have all_eq: "v = data_min st" if "v \<in> set xs" for v
  proof -
    have "Min (set xs) \<le> v" "v \<le> Max (set xs)" using that by simp_all
    then show ?thesis using eq mn mx by linarith
  qed
  have ft: "fit_transform cols = Inr (transform sts cols)"
    using sts assms(1) by (simp add: fit_transform_def)
  have "transform sts cols ! i = map (transform_value st) xs"
    using transform_nth [OF len assms(3)] by (simp add: xs_def st_def)
  also have "\<dots> = map (\<lambda>v. 0) xs"
    using all_eq by (simp add: transform_value_degenerate [OF eq])
  finally have outi: "transform sts cols ! i = map (\<lambda>v. 0) xs" .
  show ?thesis
    using sts ft transform_length [OF len] outi eq
    by (simp add: xs_def st_def handle_zeros_in_scale_def)
qed

text \<open>Three trips from one place: both dimensions have zero variance.\<close>

theorem range_scaler_zero_variance_witness:
  "\<exists>sts out. fit [[583960, 583960, 583960], [4512300, 4512300, 4512300]] = Inr sts
     \<and> fit_transform [[583960, 583960, 583960], [4512300, 4512300, 4512300]] = Inr out
     \<and> out ! 0 = [0, 0, 0]"
proof -
  let ?cols = "[[583960, 583960, 583960], [4512300, 4512300, 4512300]] :: real list list"
  have h1: "?cols \<noteq> []" by simp
  have h2: "\<forall>c \<in> set ?cols. c \<noteq> []" by simp
  have h3: "(0::nat) < length ?cols" by simp
  have h4: "Min (set (?cols ! 0)) = Max (set (?cols ! 0))" by simp
  show ?thesis
    using range_scaler_zero_variance [OF h1 h2 h3 h4] by auto
qed

section \<open>The run of the script\<close>

lemma stage0:
  assumes "length a = length i" "length b = length i" "length c = length i" "length d = length i"
  shows "pd_DataFrame (trip_data i a b c d) = Inr (trip_data i a b c d)"
  using assms by (simp add: pd_DataFrame_def trip_data_def)

lemma stage1:
  "\<exists>dist. haversine_stage (trip_data i a b c d) =
     Inr (trip_data i a b c d @ [(''distance_km'', FloatCol dist)])"
proof -
  have "apply_rows (\<lambda>(lat1, lon1, lat2, lon2). calculate_haversine_distance lat1 lon1 lat2 lon2) rs
     = Inr (map (\<lambda>(lat1, lon1, lat2, lon2).
           Earth_Radius_km * (2 * arcsin (sqrt (haversine_a lat1 lon1 lat2 lon2)))) rs)" for rs
    by (rule apply_rows_total) (simp add: haversine_returns split: prod.split)
  then show ?thesis
    by (simp add: haversine_stage_def trip_data_def get_floats_def get_col_def)
qed

lemma stage2:
  "\<exists>x y. length x = length (zip b a) \<and> length y = length (zip b a) \<and>
     projection_stage to_crs (trip_data i a b c d @ [(''distance_km'', k)]) =
     Inr (trip_data i a b c d @ [(''distance_km'', k)]
            @ [(''pickup_x_meters'', FloatCol x), (''pickup_y_meters'', FloatCol y)])"
  by (simp add: projection_stage_def trip_data_def get_floats_def get_col_def Let_def)

lemma stage3:
  "spherical_stage (trip_data i a b c d @ [(''distance_km'', k)]
            @ [(''pickup_x_meters'', x), (''pickup_y_meters'', y)]) =
     Inr (trip_data i a b c d @ [(''distance_km'', k)]
            @ [(''pickup_x_meters'', x), (''pickup_y_meters'', y)]
            @ [(''lon_rad'', FloatCol (np_deg2rad b)),
               (''lat_rad'', FloatCol (np_deg2rad a)),
               (''pickup_lon_sin'', FloatCol (np_sin (np_deg2rad b))),
               (''pickup_lon_cos'', FloatCol (np_cos (np_deg2rad b))),
               (''pickup_lat_sin'', FloatCol (np_sin (np_deg2rad a))),
               (''pickup_lat_cos'', FloatCol (np_cos (np_deg2rad a)))])"
  by (simp add: spherical_stage_def trip_data_def get_floats_def get_col_def Let_def)

lemma stage4:
  assumes "x \<noteq> []" and "y \<noteq> []"
  shows "\<exists>xs ys. minmax_stage (trip_data i a b c d @ [(''distance_km'', k)]
            @ [(''pickup_x_meters'', FloatCol x), (''pickup_y_meters'', FloatCol y)]
            @ [(''lon_rad'', r1), (''lat_rad'', r2), (''pickup_lon_sin'', r3),
               (''pickup_lon_cos'', r4), (''pickup_lat_sin'', r5), (''pickup_lat_cos'', r6)]) =
     Inr (trip_data i a b c d @ [(''distance_km'', k)]
            @ [(''pickup_x_meters'', FloatCol x), (''pickup_y_meters'', FloatCol y)]
            @ [(''lon_rad'', r1), (''lat_rad'', r2), (''pickup_lon_sin'', r3),
               (''pickup_lon_cos'', r4), (''pickup_lat_sin'', r5), (''pickup_lat_cos'', r6)]
            @ [(''pickup_x_scaled'', FloatCol xs), (''pickup_y_scaled'', FloatCol ys)])"
proof -
  obtain sx sy where "fit_column x = Inr sx" "fit_column y = Inr sy"
    using fit_column_nonempty assms by blast
  then show ?thesis
    by (simp add: minmax_stage_def trip_data_def get_col_def fit_transform_def transform_def)
qed

lemma pipeline_trace:
  assumes "length a = length i" "length b = length i" "length c = length i" "length d = length i"
    and "i \<noteq> []"
  shows "\<exists>k x y r1 r2 r3 r4 r5 r6 xs ys.
       pd_DataFrame (trip_data i a b c d) = Inr (trip_data i a b c d)
     \<and> haversine_stage (trip_data i a b c d) = Inr (trip_data i a b c d @ [(''distance_km'', k)])
     \<and> projection_stage to_crs (trip_data i a b c d @ [(''distance_km'', k)])
         = Inr (trip_data i a b c d @ [(''distance_km'', k)]
            @ [(''pickup_x_meters'', x), (''pickup_y_meters'', y)])
     \<and> spherical_stage (trip_data i a b c d @ [(''distance_km'', k)]
            @ [(''pickup_x_meters'', x), (''pickup_y_meters'', y)])
         = Inr (trip_data i a b c d @ [(''distance_km'', k)]
            @ [(''pickup_x_meters'', x), (''pickup_y_meters'', y)]
            @ [(''lon_rad'', r1), (''lat_rad'', r2), (''pickup_lon_sin'', r3),
               (''pickup_lon_cos'', r4), (''pickup_lat_sin'', r5), (''pickup_lat_cos'', r6)])
     \<and> minmax_stage (trip_data i a b c d @ [(''distance_km'', k)]
            @ [(''pickup_x_meters'', x), (''pickup_y_meters'', y)]
            @ [(''lon_rad'', r1), (''lat_rad'', r2), (''pickup_lon_sin'', r3),
               (''pickup_lon_cos'', r4), (''pickup_lat_sin'', r5), (''pickup_lat_cos'', r6)])
         = Inr (trip_data i a b c d @ [(''distance_km'', k)]
            @ [(''pickup_x_meters'', x), (''pickup_y_meters'', y)]
            @ [(''lon_rad'', r1), (''lat_rad'', r2), (''pickup_lon_sin'', r3),
               (''pickup_lon_cos'', r4), (''pickup_lat_sin'', r5), (''pickup_lat_cos'', r6)]
            @ [(''pickup_x_scaled'', xs), (''pickup_y_scaled'', ys)])"
proof -
  obtain k where s1: "haversine_stage (trip_data i a b c d) =
      Inr (trip_data i a b c d @ [(''distance_km'', FloatCol k)])"
    using stage1 by blast
  obtain x y where xy: "length x = length (zip b a)" "length y = length (zip b a)"
    and s2: "projection_stage to_crs (trip_data i a b c d @ [(''distance_km'', FloatCol k)]) =
     Inr (trip_data i a b c d @ [(''distance_km'', FloatCol k)]
            @ [(''pickup_x_meters'', FloatCol x), (''pickup_y_meters'', FloatCol y)])"
    using stage2 [of b a to_crs i c d "FloatCol k"] by blast
  have ne: "x \<noteq> []" "y \<noteq> []"
    using xy assms by auto
  note s3 = stage3 [of i a b c d "FloatCol k" "FloatCol x" "FloatCol y"]
  obtain xs ys where s4: "minmax_stage (trip_data i a b c d @ [(''distance_km'', FloatCol k)]
            @ [(''pickup_x_meters'', FloatCol x), (''pickup_y_meters'', FloatCol y)]
            @ [(''lon_rad'', FloatCol (np_deg2rad b)),
               (''lat_rad'', FloatCol (np_deg2rad a)),
               (''pickup_lon_sin'', FloatCol (np_sin (np_deg2rad b))),
               (''pickup_lon_cos'', FloatCol (np_cos (np_deg2rad b))),
               (''pickup_lat_sin'', FloatCol (np_sin (np_deg2rad a))),
               (''pickup_lat_cos'', FloatCol (np_cos (np_deg2rad a)))]) =
     Inr (trip_data i a b c d @ [(''distance_km'', FloatCol k)]
            @ [(''pickup_x_meters'', FloatCol x), (''pickup_y_meters'', FloatCol y)]
            @ [(''lon_rad'', FloatCol (np_deg2rad b)),
               (''lat_rad'', FloatCol (np_deg2rad a)),
               (''pickup_lon_sin'', FloatCol (np_sin (np_deg2rad b))),
               (''pickup_lon_cos'', FloatCol (np_cos (np_deg2rad b))),
               (''pickup_lat_sin'', FloatCol (np_sin (np_deg2rad a))),
               (''pickup_lat_cos'', FloatCol (np_cos (np_deg2rad a)))]
            @ [(''pickup_x_scaled'', FloatCol xs), (''pickup_y_scaled'', FloatCol ys)])"
    using stage4 [OF ne] by blast
  show ?thesis
    using stage0 [OF assms(1-4)] s1 s2 s3 s4 by blast
qed

lemma my_data_table_value:
  assumes "length a = length i" "length b = length i" "length c = length i" "length d = length i"
    and "i \<noteq> []"
  shows "\<exists>k x y r1 r2 r3 r4 r5 r6 xs ys.
     my_data_table to_crs i a b c d =
       Inr (trip_data i a b c d @ [(''distance_km'', k)]
            @ [(''pickup_x_meters'', x), (''pickup_y_meters'', y)]
            @ [(''lon_rad'', r1), (''lat_rad'', r2), (''pickup_lon_sin'', r3),
               (''pickup_lon_cos'', r4), (''pickup_lat_sin'', r5), (''pickup_lat_cos'', r6)]
            @ [(''pickup_x_scaled'', xs), (''pickup_y_scaled'', ys)])"
proof -
  obtain k x y r1 r2 r3 r4 r5 r6 xs ys where
        s0: "pd_DataFrame (trip_data i a b c d) = Inr (trip_data i a b c d)"
    and s1: "haversine_stage (trip_data i a b c d) = Inr (trip_data i a b c d @ [(''distance_km'', k)])"
    and s2: "projection_stage to_crs (trip_data i a b c d @ [(''distance_km'', k)])
         = Inr (trip_data i a b c d @ [(''distance_km'', k)]
            @ [(''pickup_x_meters'', x), (''pickup_y_meters'', y)])"
    and s3: "spherical_stage (trip_data i a b c d @ [(''distance_km'', k)]
            @ [(''pickup_x_meters'', x), (''pickup_y_meters'', y)])
         = Inr (trip_data i a b c d @ [(''distance_km'', k)]
            @ [(''pickup_x_meters'', x), (''pickup_y_meters'', y)]
            @ [(''lon_rad'', r1), (''lat_rad'', r2), (''pickup_lon_sin'', r3),
               (''pickup_lon_cos'', r4), (''pickup_lat_sin'', r5), (''pickup_lat_cos'', r6)])"
    and s4: "minmax_stage (trip_data i a b c d @ [(''distance_km'', k)]
            @ [(''pickup_x_meters'', x), (''pickup_y_meters'', y)]
            @ [(''lon_rad'', r1), (''lat_rad'', r2), (''pickup_lon_sin'', r3),
               (''pickup_lon_cos'', r4), (''pickup_lat_sin'', r5), (''pickup_lat_cos'', r6)])
         = Inr (trip_data i a b c d @ [(''distance_km'', k)]
            @ [(''pickup_x_meters'', x), (''pickup_y_meters'', y)]
            @ [(''lon_rad'', r1), (''lat_rad'', r2), (''pickup_lon_sin'', r3),
               (''pickup_lon_cos'', r4), (''pickup_lat_sin'', r5), (''pickup_lat_cos'', r6)]
            @ [(''pickup_x_scaled'', xs), (''pickup_y_scaled'', ys)])"
    using pipeline_trace [OF assms, of to_crs] by blast
  have "my_data_table to_crs i a b c d =
       Inr (trip_data i a b c d @ [(''distance_km'', k)]
            @ [(''pickup_x_meters'', x), (''pickup_y_meters'', y)]
            @ [(''lon_rad'', r1), (''lat_rad'', r2), (''pickup_lon_sin'', r3),
               (''pickup_lon_cos'', r4), (''pickup_lat_sin'', r5), (''pickup_lat_cos'', r6)]
            @ [(''pickup_x_scaled'', xs), (''pickup_y_scaled'', ys)])"
    unfolding my_data_table_def by (simp only: s0 s1 s2 s3 s4 bind_err_Inr)
  then show ?thesis by blast
qed

lemma final_output_value:
  assumes "length a = length i" "length b = length i" "length c = length i" "length d = length i"
    and "i \<noteq> []"
  shows "\<exists>k x y r3 r4 xs ys.
     final_output to_crs i a b c d =
       Inr [(''trip_id'', IntCol i), (''pickup_lat'', FloatCol a),
            (''pickup_lon'', FloatCol b), (''distance_km'', k),
            (''pickup_x_meters'', x), (''pickup_y_meters'', y),
            (''pickup_lon_sin'', r3), (''pickup_lon_cos'', r4),
            (''pickup_x_scaled'', xs), (''pickup_y_scaled'', ys)]"
proof -
  obtain k x y r1 r2 r3 r4 r5 r6 xs ys where run:
    "my_data_table to_crs i a b c d =
       Inr (trip_data i a b c d @ [(''distance_km'', k)]
            @ [(''pickup_x_meters'', x), (''pickup_y_meters'', y)]
            @ [(''lon_rad'', r1), (''lat_rad'', r2), (''pickup_lon_sin'', r3),
               (''pickup_lon_cos'', r4), (''pickup_lat_sin'', r5), (''pickup_lat_cos'', r6)]
            @ [(''pickup_x_scaled'', xs), (''pickup_y_scaled'', ys)])"
    using my_data_table_value [OF assms, of to_crs] by blast
  show ?thesis
    by (simp add: final_output_def run final_columns_def trip_data_def get_col_def)
qed

lemma script_data_lengths:
  "length pickup_lat0 = length trip_id0" "length pickup_lon0 = length trip_id0"
  "length dropoff_lat0 = length trip_id0" "length dropoff_lon0 = length trip_id0"
  "trip_id0 \<noteq> []"
  by (simp_all add: trip_id0_def pickup_lat0_def pickup_lon0_def dropoff_lat0_def dropoff_lon0_def)

text \<open>
  Claim C10: on the table of the script every stage returns the table it was given
  followed by new columns, the names added by the four stages and the five original
  names are all different, and after the four stages the columns trip_id, pickup_lat,
  pickup_lon, dropoff_lat and dropoff_lon hold the values they were created with.
\<close>

theorem stages_only_add_columns:
  assumes "length pickup_lat = length trip_id" and "length pickup_lon = length trip_id"
    and "length dropoff_lat = length trip_id" and "length dropoff_lon = length trip_id"
    and "trip_id \<noteq> []"
  shows "\<exists>t0 n1 n2 n3 n4.
       pd_DataFrame (trip_data trip_id pickup_lat pickup_lon dropoff_lat dropoff_lon) = Inr t0
     \<and> haversine_stage t0 = Inr (t0 @ n1)
     \<and> projection_stage to_crs (t0 @ n1) = Inr (t0 @ n1 @ n2)
     \<and> spherical_stage (t0 @ n1 @ n2) = Inr (t0 @ n1 @ n2 @ n3)
     \<and> minmax_stage (t0 @ n1 @ n2 @ n3) = Inr (t0 @ n1 @ n2 @ n3 @ n4)
     \<and> my_data_table to_crs trip_id pickup_lat pickup_lon dropoff_lat dropoff_lon
         = Inr (t0 @ n1 @ n2 @ n3 @ n4)
     \<and> map (map fst) [n1, n2, n3, n4] = stage_names
     \<and> distinct (map fst (t0 @ n1 @ n2 @ n3 @ n4))
     \<and> get_col ''trip_id'' (t0 @ n1 @ n2 @ n3 @ n4) = Inr (IntCol trip_id)
     \<and> get_col ''pickup_lat'' (t0 @ n1 @ n2 @ n3 @ n4) = Inr (FloatCol pickup_lat)
     \<and> get_col ''pickup_lon'' (t0 @ n1 @ n2 @ n3 @ n4) = Inr (FloatCol pickup_lon)
     \<and> get_col ''dropoff_lat'' (t0 @ n1 @ n2 @ n3 @ n4) = Inr (FloatCol dropoff_lat)
     \<and> get_col ''dropoff_lon'' (t0 @ n1 @ n2 @ n3 @ n4) = Inr (FloatCol dropoff_lon)"
proof -
  define t0 where "t0 = trip_data trip_id pickup_lat pickup_lon dropoff_lat dropoff_lon"
  obtain k x y r1 r2 r3 r4 r5 r6 xs ys where
        s0: "pd_DataFrame t0 = Inr t0"
    and s1: "haversine_stage t0 = Inr (t0 @ [(''distance_km'', k)])"
    and s2: "projection_stage to_crs (t0 @ [(''distance_km'', k)])
         = Inr (t0 @ [(''distance_km'', k)]
            @ [(''pickup_x_meters'', x), (''pickup_y_meters'', y)])"
    and s3: "spherical_stage (t0 @ [(''distance_km'', k)]
            @ [(''pickup_x_meters'', x), (''pickup_y_meters'', y)])
         = Inr (t0 @ [(''distance_km'', k)]
            @ [(''pickup_x_meters'', x), (''pickup_y_meters'', y)]
            @ [(''lon_rad'', r1), (''lat_rad'', r2), (''pickup_lon_sin'', r3),
               (''pickup_lon_cos'', r4), (''pickup_lat_sin'', r5), (''pickup_lat_cos'', r6)])"
    and s4: "minmax_stage (t0 @ [(''distance_km'', k)]
            @ [(''pickup_x_meters'', x), (''pickup_y_meters'', y)]
            @ [(''lon_rad'', r1), (''lat_rad'', r2), (''pickup_lon_sin'', r3),
               (''pickup_lon_cos'', r4), (''pickup_lat_sin'', r5), (''pickup_lat_cos'', r6)])
         = Inr (t0 @ [(''distance_km'', k)]
            @ [(''pickup_x_meters'', x), (''pickup_y_meters'', y)]
            @ [(''lon_rad'', r1), (''lat_rad'', r2), (''pickup_lon_sin'', r3),
               (''pickup_lon_cos'', r4), (''pickup_lat_sin'', r5), (''pickup_lat_cos'', r6)]
            @ [(''pickup_x_scaled'', xs), (''pickup_y_scaled'', ys)])"
    unfolding t0_def using pipeline_trace [OF assms, of to_crs] by blast
  define n1 where "n1 = [(''distance_km'', k)]"
  define n2 where "n2 = [(''pickup_x_meters'', x), (''pickup_y_meters'', y)]"
  define n3 where "n3 = [(''lon_rad'', r1), (''lat_rad'', r2), (''pickup_lon_sin'', r3),
               (''pickup_lon_cos'', r4), (''pickup_lat_sin'', r5), (''pickup_lat_cos'', r6)]"
  define n4 where "n4 = [(''pickup_x_scaled'', xs), (''pickup_y_scaled'', ys)]"
  have run: "my_data_table to_crs trip_id pickup_lat pickup_lon dropoff_lat dropoff_lon
         = Inr (t0 @ n1 @ n2 @ n3 @ n4)"
    using s0 s1 s2 s3 s4 by (simp add: my_data_table_def t0_def [symmetric] n1_def n2_def n3_def n4_def)
  have names: "map (map fst) [n1, n2, n3, n4] = stage_names"
    by (simp add: n1_def n2_def n3_def n4_def stage_names_def)
  have dist: "distinct (map fst (t0 @ n1 @ n2 @ n3 @ n4))"
    by (simp add: t0_def trip_data_def n1_def n2_def n3_def n4_def)
  have orig: "get_col ''trip_id'' (t0 @ n1 @ n2 @ n3 @ n4) = Inr (IntCol trip_id)"
    "get_col ''pickup_lat'' (t0 @ n1 @ n2 @ n3 @ n4) = Inr (FloatCol pickup_lat)"
    "get_col ''pickup_lon'' (t0 @ n1 @ n2 @ n3 @ n4) = Inr (FloatCol pickup_lon)"
    "get_col ''dropoff_lat'' (t0 @ n1 @ n2 @ n3 @ n4) = Inr (FloatCol dropoff_lat)"
    "get_col ''dropoff_lon'' (t0 @ n1 @ n2 @ n3 @ n4) = Inr (FloatCol dropoff_lon)"
    by (simp_all add: get_col_def t0_def trip_data_def)
  have steps: "pd_DataFrame (trip_data trip_id pickup_lat pickup_lon dropoff_lat dropoff_lon) = Inr t0"
    "haversine_stage t0 = Inr (t0 @ n1)"
    "projection_stage to_crs (t0 @ n1) = Inr (t0 @ n1 @ n2)"
    "spherical_stage (t0 @ n1 @ n2) = Inr (t0 @ n1 @ n2 @ n3)"
    "minmax_stage (t0 @ n1 @ n2 @ n3) = Inr (t0 @ n1 @ n2 @ n3 @ n4)"
    using s0 s1 s2 s3 s4 by (simp_all add: t0_def [symmetric] n1_def n2_def n3_def n4_def)
  show ?thesis
    apply (rule exI [of _ t0], rule exI [of _ n1], rule exI [of _ n2])
    apply (rule exI [of _ n3], rule exI [of _ n4])
    apply (intro conjI)
    apply (fact steps run names dist orig)+
    done
qed

text \<open>The run on the data of the script.\<close>

theorem stages_only_add_columns_witness:
  "\<exists>t. my_data_table degrees_grid trip_id0 pickup_lat0 pickup_lon0 dropoff_lat0 dropoff_lon0 = Inr t
     \<and> distinct (map fst t)
     \<and> get_col ''trip_id'' t = Inr (IntCol trip_id0)
     \<and> get_col ''pickup_lat'' t = Inr (FloatCol pickup_lat0)
     \<and> get_col ''pickup_lon'' t = Inr (FloatCol pickup_lon0)
     \<and> get_col ''dropoff_lat'' t = Inr (FloatCol dropoff_lat0)
     \<and> get_col ''dropoff_lon'' t = Inr (FloatCol dropoff_lon0)"
  using stages_only_add_columns [OF script_data_lengths, of degrees_grid] by blast

text \<open>
  Claim C9, as stated: the final output record has, among its fields, pickup_lat_sin and
  pickup_lat_cos. On the data of the script, \<open>final_output\<close> does not have all the
  fields that the spec lists.
\<close>

theorem final_output_lacks_spec_fields:
  "\<not> exposes spec_output_fields
        (final_output degrees_grid trip_id0 pickup_lat0 pickup_lon0 dropoff_lat0 dropoff_lon0)"
proof -
  obtain k x y r3 r4 xs ys where
    "final_output degrees_grid trip_id0 pickup_lat0 pickup_lon0 dropoff_lat0 dropoff_lon0 =
       Inr [(''trip_id'', IntCol trip_id0), (''pickup_lat'', FloatCol pickup_lat0),
            (''pickup_lon'', FloatCol pickup_lon0), (''distance_km'', k),
            (''pickup_x_meters'', x), (''pickup_y_meters'', y),
            (''pickup_lon_sin'', r3), (''pickup_lon_cos'', r4),
            (''pickup_x_scaled'', xs), (''pickup_y_scaled'', ys)]"
    using final_output_value [OF script_data_lengths, of degrees_grid] by blast
  then show ?thesis
    by (simp add: exposes_def spec_output_fields_def)
qed

text \<open>
  Claim C9, amended: \<open>final_output\<close> has exactly the columns trip_id, pickup_lat,
  pickup_lon, distance_km, pickup_x_meters, pickup_y_meters, pickup_lon_sin,
  pickup_lon_cos, pickup_x_scaled, pickup_y_scaled, in this order, on every run;
  pickup_lat_sin and pickup_lat_cos are not among them. All ten fields of the spec are
  columns of \<open>my_data_table\<close>, from which \<open>final_output\<close> is selected.
\<close>

theorem final_output_columns:
  assumes "length pickup_lat = length trip_id" and "length pickup_lon = length trip_id"
    and "length dropoff_lat = length trip_id" and "length dropoff_lon = length trip_id"
    and "trip_id \<noteq> []"
  shows "\<exists>out. final_output to_crs trip_id pickup_lat pickup_lon dropoff_lat dropoff_lon = Inr out
     \<and> map fst out =
         [''trip_id'', ''pickup_lat'', ''pickup_lon'', ''distance_km'',
          ''pickup_x_meters'', ''pickup_y_meters'', ''pickup_lon_sin'', ''pickup_lon_cos'',
          ''pickup_x_scaled'', ''pickup_y_scaled'']
     \<and> ''pickup_lat_sin'' \<notin> set (map fst out) \<and> ''pickup_lat_cos'' \<notin> set (map fst out)
     \<and> exposes spec_output_fields
          (my_data_table to_crs trip_id pickup_lat pickup_lon dropoff_lat dropoff_lon)"
proof -
  obtain k x y r1 r2 r3 r4 r5 r6 xs ys where run:
    "my_data_table to_crs trip_id pickup_lat pickup_lon dropoff_lat dropoff_lon =
       Inr (trip_data trip_id pickup_lat pickup_lon dropoff_lat dropoff_lon @ [(''distance_km'', k)]
            @ [(''pickup_x_meters'', x), (''pickup_y_meters'', y)]
            @ [(''lon_rad'', r1), (''lat_rad'', r2), (''pickup_lon_sin'', r3),
               (''pickup_lon_cos'', r4), (''pickup_lat_sin'', r5), (''pickup_lat_cos'', r6)]
            @ [(''pickup_x_scaled'', xs), (''pickup_y_scaled'', ys)])"
    using my_data_table_value [OF assms, of to_crs] by blast
  obtain k' x' y' r3' r4' xs' ys' where out:
    "final_output to_crs trip_id pickup_lat pickup_lon dropoff_lat dropoff_lon =
       Inr [(''trip_id'', IntCol trip_id), (''pickup_lat'', FloatCol pickup_lat),
            (''pickup_lon'', FloatCol pickup_lon), (''distance_km'', k'),
            (''pickup_x_meters'', x'), (''pickup_y_meters'', y'),
            (''pickup_lon_sin'', r3'), (''pickup_lon_cos'', r4'),
            (''pickup_x_scaled'', xs'), (''pickup_y_scaled'', ys')]"
    using final_output_value [OF assms, of to_crs] by blast
  have "exposes spec_output_fields
          (my_data_table to_crs trip_id pickup_lat pickup_lon dropoff_lat dropoff_lon)"
    by (simp add: run exposes_def spec_output_fields_def trip_data_def)
  then show ?thesis
    by (simp add: out)
qed

text \<open>The columns of \<open>final_output\<close> on the data of the script.\<close>

theorem final_output_columns_witness:
  "\<exists>out. final_output degrees_grid trip_id0 pickup_lat0 pickup_lon0 dropoff_lat0 dropoff_lon0 = Inr out
     \<and> map fst out =
         [''trip_id'', ''pickup_lat'', ''pickup_lon'', ''distance_km'',
          ''pickup_x_meters'', ''pickup_y_meters'', ''pickup_lon_sin'', ''pickup_lon_cos'',
          ''pickup_x_scaled'', ''pickup_y_scaled'']
     \<and> ''pickup_lat_sin'' \<notin> set (map fst out) \<and> ''pickup_lat_cos'' \<notin> set (map fst out)
     \<and> exposes spec_output_fields
          (my_data_table degrees_grid trip_id0 pickup_lat0 pickup_lon0 dropoff_lat0 dropoff_lon0)"
  by (rule final_output_columns [OF script_data_lengths])

end
